theory Spec2Isabelle
  imports Complex_Main
begin

section \<open>Voiceprint verification service\<close>

text \<open>
  A shallow embedding of \<^verbatim>\<open>VoiceVerificationService\<close>
  (\<^verbatim>\<open>src/services/verification.py\<close>).

  State: the dictionary \<^verbatim>\<open>self.user_voiceprints\<close> is a partial map that
  each method takes and returns. The clock read by \<^verbatim>\<open>np.datetime64('now')\<close>
  is an explicit argument.

  Errors: a Python exception is a value \<open>Inl e\<close> of a sum type.

  Numbers: the source computes with IEEE 754 double precision (\<^verbatim>\<open>float\<close>,
  \<^verbatim>\<open>np.float64\<close>). Two readings of its arithmetic are embedded.
  \<^item> Exact arithmetic over \<open>real\<close>, for the store operations, the zero-norm guard,
    the clamp and the zero-crossing rate. The theorems stated in this reading are those
    whose truth does not depend on rounding: they test an all-zero array, compare exact
    integers, bound a clamped value, or pass a score on.
  \<^item> Binary64 arithmetic over \<open>f64\<close>: every operation is rounded to nearest, ties
    to even, with overflow to infinity, gradual underflow and NaN. It is used wherever
    the code branches on a computed value: the similarity at the ends of the double
    range, and the frequency of each spectrum bin. The sign of zero is not modelled (no
    operation of the code divides by a negative zero).

  The numpy routines whose floating-point algorithm is not part of the repository, the
  FFT with its magnitudes and the summation of \<^verbatim>\<open>np.sum\<close>, are parameters of
  the model (the record \<open>numpy\<close>); a theorem that holds for every value of the
  parameters holds for the library as it is.
\<close>

subsection \<open>Data model\<close>

datatype py_error = ValueError | ZeroDivisionError

record voiceprint =
  features :: "real list"
  created_at :: int

type_synonym user_voiceprints = "int \<rightharpoonup> voiceprint"

subsection \<open>Similarity, in exact arithmetic\<close>

text \<open>\<^verbatim>\<open>np.dot\<close> on two one-dimensional arrays: the inner product; arrays of
  different lengths raise \<^verbatim>\<open>ValueError\<close> (shapes not aligned).\<close>

definition np_dot :: "real list \<Rightarrow> real list \<Rightarrow> py_error + real" where
  "np_dot vec1 vec2 =
     (if length vec1 = length vec2
      then Inr (sum_list (map2 (\<lambda>x y. x * y) vec1 vec2))
      else Inl ValueError)"

text \<open>\<^verbatim>\<open>np.linalg.norm\<close> on a one-dimensional real array: the square root of
  the array's inner product with itself.\<close>

definition linalg_norm :: "real list \<Rightarrow> real" where
  "linalg_norm vec = sqrt (sum_list (map (\<lambda>x. x * x) vec))"

text \<open>Python's built-in \<^verbatim>\<open>min(a, b)\<close> and \<^verbatim>\<open>max(a, b)\<close>: the first
  argument is kept unless the second is strictly smaller (greater).\<close>

definition py_min :: "real \<Rightarrow> real \<Rightarrow> real" where
  "py_min a b = (if b < a then b else a)"

definition py_max :: "real \<Rightarrow> real \<Rightarrow> real" where
  "py_max a b = (if a < b then b else a)"

definition calculate_similarity :: "real list \<Rightarrow> real list \<Rightarrow> py_error + real" where
  "calculate_similarity features1 features2 =
     (case np_dot features1 features2 of
        Inl e \<Rightarrow> Inl e
      | Inr dot_product \<Rightarrow>
          (let norm1 = linalg_norm features1;
               norm2 = linalg_norm features2
           in if norm1 = 0 \<or> norm2 = 0 then Inr 0
              else Inr (py_max 0 (py_min 1 (dot_product / (norm1 * norm2))))))"

subsection \<open>The voiceprint store\<close>


definition verify_user_voiceprint ::
  "user_voiceprints \<Rightarrow> int \<Rightarrow> real list \<Rightarrow> real
     \<Rightarrow> user_voiceprints \<times> (py_error + bool \<times> real)" where
  "verify_user_voiceprint store user_id feats threshold =
     (case store user_id of
        None \<Rightarrow> (store, Inr (False, 0))
      | Some registered \<Rightarrow>
          (case calculate_similarity (features registered) feats of
             Inl e \<Rightarrow> (store, Inl e)
           | Inr similarity \<Rightarrow> (store, Inr (threshold \<le> similarity, similarity))))"

definition remove_user_voiceprint ::
  "user_voiceprints \<Rightarrow> int \<Rightarrow> user_voiceprints \<times> bool" where
  "remove_user_voiceprint store user_id =
     (if store user_id \<noteq> None then (store(user_id := None), True)
      else (store, False))"

subsection \<open>Zero-crossing rate\<close>

text \<open>\<^verbatim>\<open>np.diff\<close> on a one-dimensional array: \<^verbatim>\<open>a[1:] - a[:-1]\<close>.\<close>

definition np_diff :: "real list \<Rightarrow> real list" where
  "np_diff a = map2 (\<lambda>nxt cur. nxt - cur) (tl a) (butlast a)"

text \<open>\<^verbatim>\<open>_calculate_zero_crossing_rate\<close>. \<^verbatim>\<open>np.sign\<close> is \<open>sgn\<close>;
  \<^verbatim>\<open>np.sum\<close> of the Boolean array counts its true entries. On an empty array
  the division 0 / 0 of numpy yields nan (with a warning), which is no real number: the
  model returns \<open>None\<close> there.\<close>

definition calculate_zero_crossing_rate :: "real list \<Rightarrow> real option" where
  "calculate_zero_crossing_rate audio_data =
     (let zero_crossings = length (filter (\<lambda>d. d \<noteq> 0) (np_diff (map sgn audio_data)))
      in if length audio_data = 0 then None
         else Some (real zero_crossings / real (length audio_data)))"

subsection \<open>IEEE 754 binary64 arithmetic\<close>

text \<open>
  A double is a real number, an infinity or NaN. \<open>Finite x\<close> is meant for a
  representable \<open>x\<close>; every operation below returns one.
\<close>

datatype f64 = Finite real | PInf | NInf | NaN

text \<open>Rounding to the nearest integer, ties to the even one.\<close>

definition rne :: "real \<Rightarrow> int" where
  "rne q =
     (let f = \<lfloor>q\<rfloor>; r = q - of_int f
      in if r < 1 / 2 then f
         else if 1 / 2 < r then f + 1
         else if even f then f else f + 1)"

text \<open>
  The exponent of the unit in the last place: a normal double has 53 significant bits,
  and below \<open>2 powr -1022\<close> the spacing stays at \<open>2 powr -1074\<close> (subnormal
  numbers). \<open>f64_round\<close> is the rounding of IEEE 754 for binary64: the nearest
  multiple of the unit in the last place, ties to even, and an infinity when that
  multiple reaches \<open>2 powr 1024\<close>.
\<close>

definition f64_ulp_exponent :: "real \<Rightarrow> int" where
  "f64_ulp_exponent x = max (\<lfloor>log 2 \<bar>x\<bar>\<rfloor> - 52) (- 1074)"

definition f64_round :: "real \<Rightarrow> f64" where
  "f64_round x =
     (if x = 0 then Finite 0
      else (let e = f64_ulp_exponent x;
                y = of_int (rne (x / 2 powr of_int e)) * 2 powr of_int e
            in if 2 powr 1024 \<le> y then PInf
               else if y \<le> - (2 powr 1024) then NInf
               else Finite y))"

definition f64_round_real :: "real \<Rightarrow> real" where
  "f64_round_real x =
     of_int (rne (x / 2 powr of_int (f64_ulp_exponent x))) * 2 powr of_int (f64_ulp_exponent x)"

text \<open>
  The arithmetic of \<^verbatim>\<open>np.float64\<close> scalars and arrays: the exact result is
  rounded; the special values follow IEEE 754; a division by zero gives an infinity or
  NaN (with a warning), not an exception.
\<close>

primrec f64_neg :: "f64 \<Rightarrow> f64" where
  "f64_neg (Finite x) = Finite (- x)"
| "f64_neg PInf = NInf"
| "f64_neg NInf = PInf"
| "f64_neg NaN = NaN"

fun f64_add :: "f64 \<Rightarrow> f64 \<Rightarrow> f64" where
  "f64_add (Finite x) (Finite y) = f64_round (x + y)"
| "f64_add NaN b = NaN"
| "f64_add a NaN = NaN"
| "f64_add PInf NInf = NaN"
| "f64_add NInf PInf = NaN"
| "f64_add PInf b = PInf"
| "f64_add a PInf = PInf"
| "f64_add NInf b = NInf"
| "f64_add a NInf = NInf"

fun f64_mul :: "f64 \<Rightarrow> f64 \<Rightarrow> f64" where
  "f64_mul (Finite x) (Finite y) = f64_round (x * y)"
| "f64_mul NaN b = NaN"
| "f64_mul a NaN = NaN"
| "f64_mul PInf (Finite y) = (if y = 0 then NaN else if 0 < y then PInf else NInf)"
| "f64_mul NInf (Finite y) = (if y = 0 then NaN else if 0 < y then NInf else PInf)"
| "f64_mul (Finite x) PInf = (if x = 0 then NaN else if 0 < x then PInf else NInf)"
| "f64_mul (Finite x) NInf = (if x = 0 then NaN else if 0 < x then NInf else PInf)"
| "f64_mul PInf PInf = PInf"
| "f64_mul PInf NInf = NInf"
| "f64_mul NInf PInf = NInf"
| "f64_mul NInf NInf = PInf"

fun f64_div :: "f64 \<Rightarrow> f64 \<Rightarrow> f64" where
  "f64_div (Finite x) (Finite y) =
     (if y = 0 then (if x = 0 then NaN else if 0 < x then PInf else NInf)
      else f64_round (x / y))"
| "f64_div NaN b = NaN"
| "f64_div a NaN = NaN"
| "f64_div (Finite x) PInf = Finite 0"
| "f64_div (Finite x) NInf = Finite 0"
| "f64_div PInf (Finite y) = (if 0 \<le> y then PInf else NInf)"
| "f64_div NInf (Finite y) = (if 0 \<le> y then NInf else PInf)"
| "f64_div PInf PInf = NaN"
| "f64_div PInf NInf = NaN"
| "f64_div NInf PInf = NaN"
| "f64_div NInf NInf = NaN"

fun f64_sqrt :: "f64 \<Rightarrow> f64" where
  "f64_sqrt (Finite x) = (if x < 0 then NaN else f64_round (sqrt x))"
| "f64_sqrt PInf = PInf"
| "f64_sqrt NInf = NaN"
| "f64_sqrt NaN = NaN"

fun f64_less :: "f64 \<Rightarrow> f64 \<Rightarrow> bool" where
  "f64_less (Finite x) (Finite y) = (x < y)"
| "f64_less NaN b = False"
| "f64_less a NaN = False"
| "f64_less PInf b = False"
| "f64_less a NInf = False"
| "f64_less a PInf = True"
| "f64_less NInf b = True"

fun f64_le :: "f64 \<Rightarrow> f64 \<Rightarrow> bool" where
  "f64_le (Finite x) (Finite y) = (x \<le> y)"
| "f64_le NaN b = False"
| "f64_le a NaN = False"
| "f64_le a PInf = True"
| "f64_le NInf b = True"
| "f64_le PInf b = False"
| "f64_le a NInf = False"

subsection \<open>Similarity, in binary64 arithmetic\<close>

text \<open>
  \<^verbatim>\<open>_calculate_similarity\<close> again, with every operation rounded. The order in
  which \<^verbatim>\<open>np.dot\<close> accumulates the products is the library's; it is taken left
  to right here, and the evaluations further down do not depend on it (every product
  overflows, or every product underflows to zero). A comparison with NaN is false, so
  \<^verbatim>\<open>min(1.0, nan)\<close> is \<open>1.0\<close>.
\<close>

definition np_dot_f64 :: "f64 list \<Rightarrow> f64 list \<Rightarrow> py_error + f64" where
  "np_dot_f64 vec1 vec2 =
     (if length vec1 = length vec2
      then Inr (foldl f64_add (Finite 0) (map2 f64_mul vec1 vec2))
      else Inl ValueError)"

definition linalg_norm_f64 :: "f64 list \<Rightarrow> f64" where
  "linalg_norm_f64 vec = f64_sqrt (foldl f64_add (Finite 0) (map2 f64_mul vec vec))"

definition py_min_f64 :: "f64 \<Rightarrow> f64 \<Rightarrow> f64" where
  "py_min_f64 a b = (if f64_less b a then b else a)"

definition py_max_f64 :: "f64 \<Rightarrow> f64 \<Rightarrow> f64" where
  "py_max_f64 a b = (if f64_less a b then b else a)"

definition calculate_similarity_f64 :: "f64 list \<Rightarrow> f64 list \<Rightarrow> py_error + f64" where
  "calculate_similarity_f64 features1 features2 =
     (case np_dot_f64 features1 features2 of
        Inl e \<Rightarrow> Inl e
      | Inr dot_product \<Rightarrow>
          (let norm1 = linalg_norm_f64 features1;
               norm2 = linalg_norm_f64 features2
           in if norm1 = Finite 0 \<or> norm2 = Finite 0 then Inr (Finite 0)
              else Inr (py_max_f64 (Finite 0)
                     (py_min_f64 (Finite 1) (f64_div dot_product (f64_mul norm1 norm2))))))"

subsection \<open>Spectral descriptors\<close>

text \<open>
  The library routines that are parameters: \<open>np_fft_abs np a k\<close> is entry \<open>k\<close> of
  \<^verbatim>\<open>np.abs(np.fft.fft(a))\<close>, and \<open>np_sum np\<close> is \<^verbatim>\<open>np.sum\<close>.
  \<^verbatim>\<open>np.fft.fft\<close> raises \<^verbatim>\<open>ValueError\<close> on an empty array.
\<close>

record numpy =
  np_fft_abs :: "real list \<Rightarrow> nat \<Rightarrow> f64"
  np_sum :: "f64 list \<Rightarrow> f64"

definition np_abs_fft :: "numpy \<Rightarrow> real list \<Rightarrow> py_error + f64 list" where
  "np_abs_fft np a =
     (if length a = 0 then Inl ValueError
      else Inr (map (np_fft_abs np a) [0..<length a]))"

text \<open>\<^verbatim>\<open>1/sample_rate\<close> on Python integers: the correctly rounded quotient;
  \<^verbatim>\<open>ZeroDivisionError\<close> for a zero rate.\<close>

definition py_reciprocal :: "int \<Rightarrow> py_error + f64" where
  "py_reciprocal sample_rate =
     (if sample_rate = 0 then Inl ZeroDivisionError
      else Inr (f64_round (1 / real_of_int sample_rate)))"

text \<open>\<^verbatim>\<open>np.fft.fftfreq(n, d)\<close>: \<^verbatim>\<open>val = 1.0 / (n * d)\<close>, a division of
  Python floats, which raises \<^verbatim>\<open>ZeroDivisionError\<close> when \<^verbatim>\<open>n * d\<close> is
  zero; then the integers \<open>0, \<dots>, (n-1)//2, -(n//2), \<dots>, -1\<close>, each converted to a
  double and multiplied by \<^verbatim>\<open>val\<close>.\<close>

definition fftfreq :: "nat \<Rightarrow> f64 \<Rightarrow> py_error + f64 list" where
  "fftfreq n d =
     (let nd = f64_mul (f64_round (real n)) d
      in if nd = Finite 0 then Inl ZeroDivisionError
         else (let val = f64_div (Finite 1) nd;
                   N = (int n - 1) div 2 + 1;
                   results = [0..N - 1] @ [- (int n div 2)..- 1]
               in Inr (map (\<lambda>i. f64_mul (f64_round (real_of_int i)) val) results)))"

text \<open>Indexing an array with a Boolean mask of the same length keeps the entries
  whose mask is true.\<close>

definition np_select :: "f64 list \<Rightarrow> bool list \<Rightarrow> f64 list" where
  "np_select a keep = map fst (filter snd (zip a keep))"

definition calculate_spectral_centroid :: "numpy \<Rightarrow> real list \<Rightarrow> int \<Rightarrow> py_error + f64" where
  "calculate_spectral_centroid np audio_data sample_rate =
     (case np_abs_fft np audio_data of
        Inl e \<Rightarrow> Inl e
      | Inr magnitude \<Rightarrow>
          (case py_reciprocal sample_rate of
             Inl e \<Rightarrow> Inl e
           | Inr d \<Rightarrow>
               (case fftfreq (length audio_data) d of
                  Inl e \<Rightarrow> Inl e
                | Inr freqs \<Rightarrow>
                    (let positive_freqs = take (length freqs div 2) freqs;
                         positive_magnitude = take (length magnitude div 2) magnitude
                     in if np_sum np positive_magnitude = Finite 0 then Inr (Finite 0)
                        else Inr (f64_div
                               (np_sum np (map2 f64_mul positive_freqs positive_magnitude))
                               (np_sum np positive_magnitude))))))"

definition calculate_frequency_bands_energy ::
  "numpy \<Rightarrow> real list \<Rightarrow> int \<Rightarrow> py_error + f64 \<times> f64 \<times> f64" where
  "calculate_frequency_bands_energy np audio_data sample_rate =
     (case np_abs_fft np audio_data of
        Inl e \<Rightarrow> Inl e
      | Inr magnitude \<Rightarrow>
          (case py_reciprocal sample_rate of
             Inl e \<Rightarrow> Inl e
           | Inr d \<Rightarrow>
               (case fftfreq (length audio_data) d of
                  Inl e \<Rightarrow> Inl e
                | Inr freqs \<Rightarrow>
                    (let positive_freqs = take (length freqs div 2) freqs;
                         positive_magnitude = take (length magnitude div 2) magnitude;
                         low_freq = Finite 300;
                         mid_freq = Finite 1000;
                         high_freq = Finite 3000;
                         low_energy = np_sum np (np_select positive_magnitude
                           (map (\<lambda>f. f64_le f low_freq) positive_freqs));
                         mid_energy = np_sum np (np_select positive_magnitude
                           (map2 (\<lambda>p q. p \<and> q)
                              (map (\<lambda>f. f64_less low_freq f) positive_freqs)
                              (map (\<lambda>f. f64_le f mid_freq) positive_freqs)));
                         high_energy = np_sum np (np_select positive_magnitude
                           (map2 (\<lambda>p q. p \<and> q)
                              (map (\<lambda>f. f64_less mid_freq f) positive_freqs)
                              (map (\<lambda>f. f64_le f high_freq) positive_freqs)))
                     in Inr (low_energy, mid_energy, high_energy)))))"

subsection \<open>The signal descriptors as the specification words them\<close>

text \<open>The three-valued sign function, and the number of pairs of consecutive samples
  whose signs are distinct.\<close>

datatype sign = Negative | Zero | Positive

definition sign_of :: "real \<Rightarrow> sign" where
  "sign_of x = (if x < 0 then Negative else if x = 0 then Zero else Positive)"

definition sign_changes :: "real list \<Rightarrow> nat" where
  "sign_changes samples =
     length (filter (\<lambda>i. sign_of (samples ! i) \<noteq> sign_of (samples ! (i + 1)))
               [0..<length samples - 1])"

text \<open>
  The frequency of bin \<open>k\<close> of an \<open>n\<close>-point spectrum: as the specification has it,
  \<open>k * sample_rate / n\<close>, and as the code computes it in doubles,
  \<^verbatim>\<open>k * (1.0 / (n * (1 / sample_rate)))\<close>. The three bands are tested on the
  computed frequency.
\<close>

definition nominal_frequency :: "nat \<Rightarrow> int \<Rightarrow> nat \<Rightarrow> real" where
  "nominal_frequency n sample_rate k = real k * real_of_int sample_rate / real n"

definition bin_frequency :: "nat \<Rightarrow> int \<Rightarrow> nat \<Rightarrow> f64" where
  "bin_frequency n sample_rate k =
     f64_mul (f64_round (real k))
       (f64_div (Finite 1)
          (f64_mul (f64_round (real n)) (f64_round (1 / real_of_int sample_rate))))"

definition in_low_band :: "nat \<Rightarrow> int \<Rightarrow> nat \<Rightarrow> bool" where
  "in_low_band n sample_rate k = f64_le (bin_frequency n sample_rate k) (Finite 300)"

definition in_mid_band :: "nat \<Rightarrow> int \<Rightarrow> nat \<Rightarrow> bool" where
  "in_mid_band n sample_rate k =
     (f64_less (Finite 300) (bin_frequency n sample_rate k) \<and>
      f64_le (bin_frequency n sample_rate k) (Finite 1000))"

definition in_high_band :: "nat \<Rightarrow> int \<Rightarrow> nat \<Rightarrow> bool" where
  "in_high_band n sample_rate k =
     (f64_less (Finite 1000) (bin_frequency n sample_rate k) \<and>
      f64_le (bin_frequency n sample_rate k) (Finite 3000))"

definition nominal_high_band :: "nat \<Rightarrow> int \<Rightarrow> nat \<Rightarrow> bool" where
  "nominal_high_band n sample_rate k =
     (1000 < nominal_frequency n sample_rate k \<and> nominal_frequency n sample_rate k \<le> 3000)"

text \<open>A band energy is the sum of the magnitudes of the first-half bins (indices
  below \<open>n div 2\<close>) that lie in the band; the centroid is the sum of frequency times
  magnitude over those bins, divided by the sum of the magnitudes, and 0 when that sum
  is 0.\<close>

definition band_energy :: "numpy \<Rightarrow> real list \<Rightarrow> (nat \<Rightarrow> bool) \<Rightarrow> f64" where
  "band_energy np samples in_band =
     np_sum np (map (np_fft_abs np samples) (filter in_band [0..<length samples div 2]))"

definition spectral_centroid_formula :: "numpy \<Rightarrow> real list \<Rightarrow> int \<Rightarrow> f64" where
  "spectral_centroid_formula np samples sample_rate =
     (let bins = [0..<length samples div 2];
          total = np_sum np (map (np_fft_abs np samples) bins)
      in if total = Finite 0 then Finite 0
         else f64_div
                (np_sum np (map (\<lambda>k. f64_mul (bin_frequency (length samples) sample_rate k)
                                         (np_fft_abs np samples k)) bins))
                total)"

subsection \<open>Reference inputs\<close>

text \<open>
  The exact discrete Fourier transform, and the library that returns its rounded
  magnitudes and sums from left to right. On a unit impulse (every coefficient is 1)
  and on silence (every coefficient is 0) numpy's FFT is exact as well, and the sums
  below are sums of small integers, so on these inputs \<open>exact_numpy\<close> is numpy.
\<close>

definition dft_bin :: "real list \<Rightarrow> nat \<Rightarrow> complex" where
  "dft_bin a k =
     (\<Sum>m\<leftarrow>[0..<length a].
        complex_of_real (a ! m) * cis (- (2 * pi * real m * real k / real (length a))))"

definition exact_numpy :: numpy where
  "exact_numpy =
     \<lparr>np_fft_abs = (\<lambda>a k. f64_round (cmod (dft_bin a k))),
      np_sum = foldl f64_add (Finite 0)\<rparr>"

definition impulse28 :: "real list" where
  "impulse28 = 1 # replicate 27 0"

definition silence4 :: "real list" where
  "silence4 = [0, 0, 0, 0]"

text \<open>Two doubles whose squares leave the double range, and a sample rate whose
  reciprocal rounds to zero.\<close>

definition huge :: real where "huge = 2 powr 600"

definition tiny :: real where "tiny = 2 powr (- 600)"

definition absurd_rate :: int where
  "absurd_rate = 2 ^ 1076"

section \<open>Properties\<close>

subsection \<open>Similarity in exact arithmetic\<close>

lemma linalg_norm_replicate_zero: "linalg_norm (replicate n 0) = 0"
  by (induction n) (simp_all add: linalg_norm_def)


lemma calculate_similarity_zero_norm:
  assumes "length a = length b" and "linalg_norm a = 0 \<or> linalg_norm b = 0"
  shows "calculate_similarity a b = Inr 0"
  using assms by (auto simp: calculate_similarity_def np_dot_def)


subsection \<open>Store operations\<close>

lemma verify_absent:
  "store user_id = None \<Longrightarrow>
     verify_user_voiceprint store user_id feats threshold = (store, Inr (False, 0))"
  by (simp add: verify_user_voiceprint_def)



subsection \<open>Zero-crossing rate\<close>

lemma np_diff_nth:
  "np_diff s = map (\<lambda>i. s ! (i + 1) - s ! i) [0..<length s - 1]"
  by (rule nth_equalityI) (simp_all add: np_diff_def nth_tl nth_butlast)

lemma sgn_eq_sign_of: "(sgn y = sgn x) = (sign_of x = sign_of y)" for x y :: real
  by (auto simp: sign_of_def sgn_real_def)

lemma zero_crossings_count:
  "length (filter (\<lambda>d. d \<noteq> 0) (np_diff (map sgn audio_data))) = sign_changes audio_data"
proof -
  let ?s = "map sgn audio_data"
  have "length (filter (\<lambda>d. d \<noteq> 0) (np_diff ?s))
      = length (filter (\<lambda>i. ?s ! (i + 1) - ?s ! i \<noteq> 0) [0..<length audio_data - 1])"
    by (simp add: np_diff_nth filter_map o_def)
  also have "filter (\<lambda>i. ?s ! (i + 1) - ?s ! i \<noteq> 0) [0..<length audio_data - 1]
      = filter (\<lambda>i. sign_of (audio_data ! i) \<noteq> sign_of (audio_data ! (i + 1)))
          [0..<length audio_data - 1]"
    by (rule filter_cong) (auto simp: sgn_eq_sign_of)
  finally show ?thesis by (simp add: sign_changes_def)
qed

subsection \<open>Rounding\<close>

lemma rne_near: "\<bar>q - of_int m\<bar> < 1 / 2 \<Longrightarrow> rne q = m"
proof -
  assume a: "\<bar>q - of_int m\<bar> < 1 / 2"
  show ?thesis
  proof (cases "of_int m \<le> q")
    case True
    with a have "\<lfloor>q\<rfloor> = m" by (intro floor_unique) auto
    with a True show ?thesis by (simp add: rne_def Let_def)
  next
    case False
    with a have f: "\<lfloor>q\<rfloor> = m - 1" by (intro floor_unique) auto
    from a False have "1 / 2 < q - of_int (m - 1)" by auto
    with f show ?thesis by (simp add: rne_def Let_def)
  qed
qed

lemma rne_of_int: "rne (of_int m) = m"
  by (rule rne_near) simp

lemma rne_ge: "of_int N \<le> q \<Longrightarrow> N \<le> rne q"
proof -
  assume "of_int N \<le> q"
  then have "N \<le> \<lfloor>q\<rfloor>" by (simp add: le_floor_iff)
  then show ?thesis by (auto simp: rne_def Let_def)
qed

lemma rne_le: "q \<le> of_int N \<Longrightarrow> rne q \<le> N"
proof (cases "q = of_int N")
  case True
  then show ?thesis by (simp add: rne_of_int)
next
  case False
  assume "q \<le> of_int N"
  with False have "q < of_int N" by simp
  then have "\<lfloor>q\<rfloor> < N" by (simp add: floor_less_iff)
  then show ?thesis by (auto simp: rne_def Let_def)
qed

lemma rne_minus: "rne (- q) = - rne q"
proof (cases "q = of_int \<lfloor>q\<rfloor>")
  case True
  then obtain n where "q = of_int n" ..
  then have "rne q = n" "rne (- q) = - n"
    using rne_of_int [of n] rne_of_int [of "- n"] by simp_all
  then show ?thesis by simp
next
  case False
  define f where "f = \<lfloor>q\<rfloor>"
  have lo: "of_int f < q" using False unfolding f_def
    by (metis of_int_floor_le order_le_less)
  have hi: "q < of_int f + 1" unfolding f_def by linarith
  have fm: "\<lfloor>- q\<rfloor> = - f - 1"
    using lo hi by (intro floor_unique) auto
  show ?thesis
    using lo hi
    by (auto simp: rne_def Let_def fm f_def [symmetric])
qed

lemma floor_log2:
  assumes "0 < x"
  shows "2 powr of_int \<lfloor>log 2 x\<rfloor> \<le> x" and "x < 2 powr of_int (\<lfloor>log 2 x\<rfloor> + 1)"
proof -
  have "of_int \<lfloor>log 2 x\<rfloor> \<le> log 2 x" by (rule of_int_floor_le)
  with assms le_log_iff [of 2 x "of_int \<lfloor>log 2 x\<rfloor>"]
  show "2 powr of_int \<lfloor>log 2 x\<rfloor> \<le> x" by linarith
  have "log 2 x < of_int (\<lfloor>log 2 x\<rfloor> + 1)" by linarith
  with assms log_less_iff [of 2 x "of_int (\<lfloor>log 2 x\<rfloor> + 1)"]
  show "x < 2 powr of_int (\<lfloor>log 2 x\<rfloor> + 1)" by linarith
qed

lemma floor_log2_eq:
  assumes "0 < x" and "2 powr of_int E \<le> x" and "x < 2 powr of_int (E + 1)"
  shows "\<lfloor>log 2 x\<rfloor> = E"
proof (rule floor_unique)
  show "of_int E \<le> log 2 x" using assms by (simp add: le_log_iff)
  have "log 2 x < of_int (E + 1)" using assms by (simp add: log_less_iff)
  then show "log 2 x < of_int E + 1" by simp
qed

lemma two_powr_nonneg:
  "0 \<le> d \<Longrightarrow> (2 :: real) powr real_of_int d = real_of_int (2 ^ nat d)"
  by (simp add: powr_real_of_int)

lemma f64_round_alt:
  "f64_round x =
     (if x = 0 then Finite 0
      else if 2 powr 1024 \<le> f64_round_real x then PInf
      else if f64_round_real x \<le> - (2 powr 1024) then NInf
      else Finite (f64_round_real x))"
  by (simp add: f64_round_def f64_round_real_def Let_def)

lemma f64_round_zero: "f64_round 0 = Finite 0"
  by (simp add: f64_round_def)

lemma f64_round_real_lower:
  assumes "0 < x" and "2 powr of_int j \<le> x" and "- 1074 \<le> j"
  shows "2 powr of_int j \<le> f64_round_real x"
proof -
  define E where "E = \<lfloor>log 2 x\<rfloor>"
  define e where "e = f64_ulp_exponent x"
  define d where "d = E - e"
  have "of_int j \<le> log 2 x" using assms(1,2) by (simp add: le_log_iff)
  then have jE: "j \<le> E" unfolding E_def by (simp add: le_floor_iff)
  have e_eq: "e = max (E - 52) (- 1074)"
    using assms(1) by (simp add: e_def E_def f64_ulp_exponent_def)
  with jE assms(3) have d0: "0 \<le> d" by (simp add: d_def)
  have Ed: "E = d + e" by (simp add: d_def)
  have Ex: "2 powr of_int E \<le> x" unfolding E_def using assms(1) by (rule floor_log2)
  have pos: "0 < 2 powr real_of_int e" by simp
  have split: "(2 :: real) powr of_int E = 2 powr of_int d * 2 powr of_int e"
    by (simp add: Ed powr_add)
  then have "(2 :: real) powr of_int d = 2 powr of_int E / 2 powr of_int e"
    by simp
  also have "\<dots> \<le> x / 2 powr of_int e"
    using Ex pos by (simp add: divide_right_mono)
  finally have "real_of_int (2 ^ nat d) \<le> x / 2 powr of_int e"
    by (simp only: two_powr_nonneg [OF d0])
  then have "2 ^ nat d \<le> rne (x / 2 powr of_int e)"
    by (rule rne_ge)
  then have "real_of_int (2 ^ nat d) \<le> real_of_int (rne (x / 2 powr of_int e))"
    by (simp only: of_int_le_iff)
  then have "2 powr of_int d \<le> real_of_int (rne (x / 2 powr of_int e))"
    by (simp only: two_powr_nonneg [OF d0])
  then have "2 powr of_int d * 2 powr of_int e
      \<le> real_of_int (rne (x / 2 powr of_int e)) * 2 powr of_int e"
    using pos by (simp add: mult_right_mono)
  then have "2 powr of_int E \<le> f64_round_real x"
    by (simp only: split f64_round_real_def e_def)
  moreover have "(2 :: real) powr real_of_int j \<le> 2 powr real_of_int E"
    using jE by simp
  ultimately show ?thesis by linarith
qed

lemma f64_round_overflow:
  assumes "2 powr 1024 \<le> x"
  shows "f64_round x = PInf"
proof -
  have "(0 :: real) < 2 powr 1024" by simp
  with assms have pos: "0 < x" by linarith
  from assms have "2 powr real_of_int 1024 \<le> x" by simp
  with pos have "2 powr real_of_int 1024 \<le> f64_round_real x"
    by (rule f64_round_real_lower) simp
  then have "2 powr 1024 \<le> f64_round_real x" by simp
  with pos show ?thesis by (simp add: f64_round_alt)
qed

lemma f64_round_positive:
  assumes "2 powr of_int j \<le> x" and "- 1074 \<le> j"
  shows "f64_round x = PInf \<or> (\<exists>y. f64_round x = Finite y \<and> 2 powr of_int j \<le> y)"
proof -
  have pj: "0 < 2 powr real_of_int j" by simp
  with assms(1) have pos: "0 < x" by linarith
  from pos assms have low: "2 powr of_int j \<le> f64_round_real x"
    by (rule f64_round_real_lower)
  with pj have "0 < f64_round_real x" by linarith
  moreover have "(0 :: real) < 2 powr 1024" by simp
  ultimately have "\<not> f64_round_real x \<le> - (2 powr 1024)" by linarith
  with pos low show ?thesis by (auto simp: f64_round_alt)
qed

lemma quotient_small:
  fixes x :: real
  assumes "\<bar>x\<bar> < 2 powr of_int (k - 1)"
  shows "\<bar>x / 2 powr of_int k\<bar> < 1 / 2"
proof -
  define u :: real where "u = 2 powr of_int k"
  have u: "0 < u" by (simp add: u_def)
  have "(2 :: real) powr of_int (k - 1) = u / 2"
    by (simp add: u_def powr_diff)
  with assms have "\<bar>x\<bar> < u / 2" by simp
  with u have "\<bar>x\<bar> / u < 1 / 2" by (simp add: field_simps)
  with u show ?thesis by (simp add: u_def [symmetric])
qed

lemma f64_round_underflow:
  assumes "\<bar>x\<bar> < 2 powr (- 1075)"
  shows "f64_round x = Finite 0"
proof (cases "x = 0")
  case True
  then show ?thesis by (simp add: f64_round_def)
next
  case False
  then have pos: "0 < \<bar>x\<bar>" by simp
  define E where "E = \<lfloor>log 2 \<bar>x\<bar>\<rfloor>"
  have "log 2 \<bar>x\<bar> < - 1075"
    using pos assms log_less_iff [of 2 "\<bar>x\<bar>" "- 1075"] by linarith
  then have "E < - 1075" unfolding E_def by (simp add: floor_less_iff)
  then have e: "f64_ulp_exponent x = - 1074"
    unfolding f64_ulp_exponent_def E_def [symmetric] by simp
  have "\<bar>x\<bar> < 2 powr of_int (- 1074 - 1)" using assms by simp
  then have "\<bar>x / 2 powr of_int (- 1074)\<bar> < 1 / 2" by (rule quotient_small)
  then have "\<bar>x / 2 powr of_int (- 1074) - of_int 0\<bar> < 1 / 2" by simp
  then have "rne (x / 2 powr of_int (- 1074)) = 0" by (rule rne_near)
  with e have "f64_round_real x = 0" by (simp only: f64_round_real_def)
  moreover have "(0 :: real) < 2 powr 1024" by simp
  ultimately show ?thesis using False by (simp add: f64_round_alt)
qed

lemma f64_ulp_exponent_minus: "f64_ulp_exponent (- x) = f64_ulp_exponent x"
  by (simp add: f64_ulp_exponent_def)

lemma f64_round_real_minus: "f64_round_real (- x) = - f64_round_real x"
  by (simp add: f64_round_real_def f64_ulp_exponent_minus rne_minus)

lemma f64_round_minus: "f64_round (- x) = f64_neg (f64_round x)"
proof -
  have "(0 :: real) < 2 powr 1024" by simp
  then show ?thesis
    by (auto simp: f64_round_alt f64_round_real_minus)
qed

lemma f64_round_overflow_neg:
  assumes "x \<le> - (2 powr 1024)"
  shows "f64_round x = NInf"
proof -
  from assms have "2 powr 1024 \<le> - x" by simp
  then have "f64_round (- x) = PInf" by (rule f64_round_overflow)
  then show ?thesis by (cases "f64_round x") (simp_all add: f64_round_minus)
qed

lemma f64_round_int:
  assumes "0 < m" and "m < 2 ^ 53"
  shows "f64_round (of_int m) = Finite (of_int m)"
proof -
  define x :: real where "x = of_int m"
  define E where "E = \<lfloor>log 2 x\<rfloor>"
  define e where "e = f64_ulp_exponent x"
  have pos: "0 < x" using assms(1) by (simp add: x_def)
  have "x < 2 powr 53"
  proof -
    have "real_of_int m < real_of_int (2 ^ 53)" using assms(2) by (simp only: of_int_less_iff)
    then show ?thesis by (simp add: x_def)
  qed
  then have "log 2 x < 53" using pos log_less_iff [of 2 x 53] by simp
  then have "E < 53" unfolding E_def by (simp add: floor_less_iff)
  then have e0: "e \<le> 0" and e1: "- 1074 \<le> e"
    using pos by (simp_all add: e_def E_def f64_ulp_exponent_def)
  define d where "d = nat (- e)"
  have "(2 :: real) powr of_int e = 1 / 2 powr of_int (- e)"
    by (simp add: powr_minus_divide)
  also have "(2 :: real) powr of_int (- e) = real_of_int (2 ^ d)"
    unfolding d_def using e0 by (intro two_powr_nonneg) simp
  finally have u: "(2 :: real) powr of_int e = 1 / real_of_int (2 ^ d)" .
  have "x / 2 powr of_int e = real_of_int (m * 2 ^ d)"
    by (simp add: u x_def)
  then have "rne (x / 2 powr of_int e) = m * 2 ^ d"
    by (simp only: rne_of_int)
  then have "f64_round_real x = real_of_int (m * 2 ^ d) * (1 / real_of_int (2 ^ d))"
    by (simp only: f64_round_real_def e_def [symmetric] u)
  then have y: "f64_round_real x = x" by (simp add: x_def)
  have "x < 2 powr 1024" using \<open>x < 2 powr 53\<close>
    by (rule less_trans) simp
  with pos y show ?thesis
    by (simp add: f64_round_alt x_def [symmetric])
qed

lemma f64_round_certificate:
  assumes "2 ^ 52 \<le> x * 2 ^ k" and "x * 2 ^ k < 2 ^ 53" and "k \<le> 1074"
    and "\<bar>x * 2 ^ k - of_int m\<bar> < 1 / 2"
  shows "f64_round x = Finite (of_int m / 2 ^ k)"
proof -
  have pk: "(0 :: real) < 2 ^ k" by simp
  from assms(1) have "0 < x * 2 ^ k" by (rule less_le_trans [rotated]) simp
  with pk have pos: "0 < x" by (simp add: zero_less_mult_iff)
  have pw: "(2 :: real) powr of_int (- int k) = 1 / 2 ^ k"
    by (simp add: powr_minus_divide powr_realpow)
  have "(2 :: real) powr of_int (52 - int k) = 2 ^ 52 / 2 ^ k"
    by (simp add: powr_diff powr_realpow)
  also have "\<dots> \<le> x" using assms(1) pk by (simp add: field_simps)
  finally have lo: "2 powr of_int (52 - int k) \<le> x" .
  have "x < 2 ^ 53 / 2 ^ k" using assms(2) pk by (simp add: field_simps)
  also have "2 ^ 53 / 2 ^ k = (2 :: real) powr of_int (52 - int k + 1)"
    by (simp add: powr_diff powr_realpow)
  finally have hi: "x < 2 powr of_int (52 - int k + 1)" .
  from pos lo hi have E: "\<lfloor>log 2 x\<rfloor> = 52 - int k" by (rule floor_log2_eq)
  have e: "f64_ulp_exponent x = - int k"
    using pos assms(3) by (simp add: f64_ulp_exponent_def E)
  have "x / 2 powr of_int (- int k) = x * 2 ^ k" by (simp only: pw) simp
  moreover from assms(4) have "rne (x * 2 ^ k) = m" by (rule rne_near)
  ultimately have y: "f64_round_real x = of_int m / 2 ^ k"
    by (simp only: f64_round_real_def e pw) simp
  have "real_of_int m < x * 2 ^ k + 1 / 2" using assms(4) by linarith
  with assms(2) have mhi: "real_of_int m < 2 ^ 53 + 1 / 2" by linarith
  have "(2 :: real) ^ 53 + 1 / 2 < 2 powr 1024" by simp
  with mhi have mhi': "real_of_int m < 2 powr 1024" by linarith
  have "x * 2 ^ k - 1 / 2 < real_of_int m" using assms(4) by linarith
  moreover have "(1 :: real) \<le> 2 ^ 52" by simp
  ultimately have mlo: "0 < real_of_int m" using assms(1) by linarith
  have "real_of_int m / 2 ^ k \<le> real_of_int m"
    using mlo by (simp add: field_simps mult_le_cancel_left1 self_le_power)
  with mhi' have "real_of_int m / 2 ^ k < 2 powr 1024" by linarith
  moreover have "0 < real_of_int m / 2 ^ k" using mlo by simp
  ultimately show ?thesis using pos by (simp add: f64_round_alt y)
qed

lemma f64_round_one: "f64_round 1 = Finite 1"
  using f64_round_int [of 1] by simp

lemma f64_round_numeral:
  "numeral w < (2 :: int) ^ 53 \<Longrightarrow> f64_round (numeral w) = Finite (numeral w)"
  using f64_round_int [of "numeral w"] by simp

subsection \<open>The similarity at the ends of the double range\<close>

lemma f64_mul_huge:
  "f64_mul (Finite huge) (Finite huge) = PInf"
  "f64_mul (Finite huge) (Finite (- huge)) = NInf"
  "f64_mul (Finite (- huge)) (Finite (- huge)) = PInf"
proof -
  have sq: "huge * huge = 2 powr 1200"
    by (simp add: huge_def powr_add [symmetric])
  have big: "(2 :: real) powr 1024 \<le> 2 powr 1200" by simp
  have p: "f64_round (2 powr 1200) = PInf" using big by (rule f64_round_overflow)
  have n: "f64_round (- (2 powr 1200)) = NInf" using big by (intro f64_round_overflow_neg) simp
  show "f64_mul (Finite huge) (Finite huge) = PInf"
    by (simp only: f64_mul.simps sq p)
  show "f64_mul (Finite huge) (Finite (- huge)) = NInf"
    by (simp only: f64_mul.simps mult_minus_right sq n)
  show "f64_mul (Finite (- huge)) (Finite (- huge)) = PInf"
    by (simp only: f64_mul.simps minus_mult_minus sq p)
qed

lemma f64_mul_tiny: "f64_mul (Finite tiny) (Finite tiny) = Finite 0"
proof -
  have sq: "tiny * tiny = 2 powr (- 1200)"
    by (simp add: tiny_def powr_add [symmetric])
  have "\<bar>(2 :: real) powr (- 1200)\<bar> < 2 powr (- 1075)" by simp
  then have "f64_round (2 powr (- 1200)) = Finite 0" by (rule f64_round_underflow)
  then show ?thesis by (simp only: f64_mul.simps sq)
qed

subsection \<open>Spectrum\<close>

lemma f64_round_ge_one:
  assumes "0 < n"
  shows "f64_round (real n) = PInf \<or> (\<exists>z. f64_round (real n) = Finite z \<and> 1 \<le> z)"
proof -
  have "(2 :: real) powr of_int 0 \<le> real n" using assms by simp
  from f64_round_positive [OF this] show ?thesis by simp
qed

lemma f64_round_reciprocal:
  assumes "0 < r" and "real_of_int r \<le> 2 powr 1074"
  shows "f64_round (1 / real_of_int r) = PInf \<or>
         (\<exists>y. f64_round (1 / real_of_int r) = Finite y \<and> 2 powr (- 1074) \<le> y)"
proof -
  have r: "0 < real_of_int r" using assms(1) by simp
  have "(2 :: real) powr (- 1074) = 1 / 2 powr 1074"
    by (simp only: powr_minus_divide)
  also have "\<dots> \<le> 1 / real_of_int r"
    using r assms(2) by (simp only: frac_le order_refl zero_le_one)
  finally have "(2 :: real) powr of_int (- 1074) \<le> 1 / real_of_int r" by simp
  from f64_round_positive [OF this] show ?thesis by simp
qed

lemma fftfreq_divisor_nonzero:
  assumes "0 < n" and "0 < r" and "real_of_int r \<le> 2 powr 1074"
  shows "f64_mul (f64_round (real n)) (f64_round (1 / real_of_int r)) \<noteq> Finite 0"
proof -
  have tiny: "(0 :: real) < 2 powr (- 1074)" by simp
  from f64_round_ge_one [OF assms(1)] f64_round_reciprocal [OF assms(2,3)]
  show ?thesis
  proof (elim disjE exE conjE)
    assume "f64_round (real n) = PInf" "f64_round (1 / real_of_int r) = PInf"
    then show ?thesis by simp
  next
    fix y assume "f64_round (real n) = PInf"
      "f64_round (1 / real_of_int r) = Finite y" "2 powr (- 1074) \<le> y"
    with tiny show ?thesis by simp
  next
    fix z assume "f64_round (real n) = Finite z" "1 \<le> z"
      "f64_round (1 / real_of_int r) = PInf"
    then show ?thesis by simp
  next
    fix z y assume z: "f64_round (real n) = Finite z" "1 \<le> z"
      and y: "f64_round (1 / real_of_int r) = Finite y" "2 powr (- 1074) \<le> y"
    have "0 \<le> y" using tiny y(2) by linarith
    with z(2) have "y \<le> z * y" by (simp add: mult_le_cancel_right1)
    with y(2) have "(2 :: real) powr of_int (- 1074) \<le> z * y" by simp
    from f64_round_positive [OF this] tiny
    have "f64_round (z * y) \<noteq> Finite 0" by auto
    with z(1) y(1) show ?thesis by simp
  qed
qed

lemma fftfreq_positive:
  assumes "0 < n" and "0 < r" and "real_of_int r \<le> 2 powr 1074"
  shows "\<exists>freqs. fftfreq n (f64_round (1 / real_of_int r)) = Inr freqs \<and> length freqs = n \<and>
           take (n div 2) freqs = map (bin_frequency n r) [0..<n div 2]"
proof -
  define d where "d = f64_round (1 / real_of_int r)"
  define val where "val = f64_div (Finite 1) (f64_mul (f64_round (real n)) d)"
  define N where "N = (int n - 1) div 2 + 1"
  define results where "results = [0..N - 1] @ [- (int n div 2)..- 1]"
  define freqs where "freqs = map (\<lambda>i. f64_mul (f64_round (real_of_int i)) val) results"
  have nz: "f64_mul (f64_round (real n)) d \<noteq> Finite 0"
    unfolding d_def using assms by (rule fftfreq_divisor_nonzero)
  then have eq: "fftfreq n d = Inr freqs"
    by (simp add: fftfreq_def Let_def freqs_def val_def results_def N_def)
  have len: "length results = n"
    using assms(1) by (simp add: results_def N_def)
  have half: "n div 2 \<le> nat N" using assms(1) unfolding N_def by linarith
  have "take (n div 2) freqs = map (bin_frequency n r) [0..<n div 2]"
  proof (rule nth_equalityI)
    show "length (take (n div 2) freqs) = length (map (bin_frequency n r) [0..<n div 2])"
      using len by (simp add: freqs_def)
  next
    fix i assume "i < length (take (n div 2) freqs)"
    then have i: "i < n div 2" by simp
    with half have iN: "i < nat N" by linarith
    then have ri: "results ! i = int i"
      by (simp add: results_def nth_append)
    have "i < length results" using len i by simp
    then have "freqs ! i = f64_mul (f64_round (real_of_int (results ! i))) val"
      unfolding freqs_def by (rule nth_map)
    then have "freqs ! i = bin_frequency n r i"
      by (simp add: ri val_def d_def bin_frequency_def)
    with i show "take (n div 2) freqs ! i = map (bin_frequency n r) [0..<n div 2] ! i"
      by simp
  qed
  moreover have "length freqs = n" using len by (simp add: freqs_def)
  ultimately show ?thesis using eq by (simp add: d_def)
qed

lemma np_abs_fft_positive:
  assumes "a \<noteq> []"
  shows "\<exists>magnitude. np_abs_fft np a = Inr magnitude \<and> length magnitude = length a \<and>
     take (length a div 2) magnitude = map (np_fft_abs np a) [0..<length a div 2]"
proof -
  have "take (length a div 2) [0..<length a] = [0..<length a div 2]"
    by (simp add: take_upt)
  then have "take (length a div 2) (map (np_fft_abs np a) [0..<length a])
      = map (np_fft_abs np a) [0..<length a div 2]"
    by (simp add: take_map)
  with assms show ?thesis by (simp add: np_abs_fft_def)
qed

lemma np_select_map: "np_select (map G xs) (map P xs) = map G (filter P xs)"
  by (induction xs) (simp_all add: np_select_def)

lemma map2_conj_map:
  "map2 (\<lambda>p q. p \<and> q) (map P xs) (map Q xs) = map (\<lambda>x. P x \<and> Q x) xs"
  by (induction xs) simp_all

lemma map2_mul_map:
  "map2 f64_mul (map F xs) (map G xs) = map (\<lambda>k. f64_mul (F k) (G k)) xs"
  by (induction xs) simp_all

lemma calculate_frequency_bands_energy_eq:
  assumes "audio_data \<noteq> []" and "0 < sample_rate" and "real_of_int sample_rate \<le> 2 powr 1074"
  shows "calculate_frequency_bands_energy np audio_data sample_rate =
     Inr (band_energy np audio_data
            (\<lambda>k. f64_le (bin_frequency (length audio_data) sample_rate k) (Finite 300)),
          band_energy np audio_data
            (\<lambda>k. f64_less (Finite 300) (bin_frequency (length audio_data) sample_rate k) \<and>
                 f64_le (bin_frequency (length audio_data) sample_rate k) (Finite 1000)),
          band_energy np audio_data
            (\<lambda>k. f64_less (Finite 1000) (bin_frequency (length audio_data) sample_rate k) \<and>
                 f64_le (bin_frequency (length audio_data) sample_rate k) (Finite 3000)))"
proof -
  let ?n = "length audio_data"
  from assms(1) have n: "0 < ?n" by simp
  from np_abs_fft_positive [OF assms(1)] obtain magnitude where
    mag: "np_abs_fft np audio_data = Inr magnitude" "length magnitude = ?n"
      "take (?n div 2) magnitude = map (np_fft_abs np audio_data) [0..<?n div 2]"
    by blast
  from fftfreq_positive [OF n assms(2,3)] obtain freqs where
    freqs: "fftfreq ?n (f64_round (1 / real_of_int sample_rate)) = Inr freqs" "length freqs = ?n"
      "take (?n div 2) freqs = map (bin_frequency ?n sample_rate) [0..<?n div 2]"
    by blast
  show ?thesis
    unfolding calculate_frequency_bands_energy_def band_energy_def py_reciprocal_def
    using assms(2)
    by (simp add: mag freqs Let_def map2_conj_map np_select_map filter_map o_def)
qed

lemma calculate_frequency_bands_energy_bands:
  assumes "audio_data \<noteq> []" and "0 < sample_rate" and "real_of_int sample_rate \<le> 2 powr 1074"
  shows "calculate_frequency_bands_energy np audio_data sample_rate =
     Inr (band_energy np audio_data (in_low_band (length audio_data) sample_rate),
          band_energy np audio_data (in_mid_band (length audio_data) sample_rate),
          band_energy np audio_data (in_high_band (length audio_data) sample_rate))"
proof -
  have "in_low_band (length audio_data) sample_rate
      = (\<lambda>k. f64_le (bin_frequency (length audio_data) sample_rate k) (Finite 300))"
    "in_mid_band (length audio_data) sample_rate
      = (\<lambda>k. f64_less (Finite 300) (bin_frequency (length audio_data) sample_rate k) \<and>
                 f64_le (bin_frequency (length audio_data) sample_rate k) (Finite 1000))"
    "in_high_band (length audio_data) sample_rate
      = (\<lambda>k. f64_less (Finite 1000) (bin_frequency (length audio_data) sample_rate k) \<and>
                 f64_le (bin_frequency (length audio_data) sample_rate k) (Finite 3000))"
    by (simp_all add: fun_eq_iff in_low_band_def in_mid_band_def in_high_band_def)
  with calculate_frequency_bands_energy_eq [OF assms, of np] show ?thesis
    by (simp only:)
qed

lemma calculate_spectral_centroid_eq:
  assumes "audio_data \<noteq> []" and "0 < sample_rate" and "real_of_int sample_rate \<le> 2 powr 1074"
  shows "calculate_spectral_centroid np audio_data sample_rate =
     Inr (spectral_centroid_formula np audio_data sample_rate)"
proof -
  let ?n = "length audio_data"
  from assms(1) have n: "0 < ?n" by simp
  from np_abs_fft_positive [OF assms(1)] obtain magnitude where
    mag: "np_abs_fft np audio_data = Inr magnitude" "length magnitude = ?n"
      "take (?n div 2) magnitude = map (np_fft_abs np audio_data) [0..<?n div 2]"
    by blast
  from fftfreq_positive [OF n assms(2,3)] obtain freqs where
    freqs: "fftfreq ?n (f64_round (1 / real_of_int sample_rate)) = Inr freqs" "length freqs = ?n"
      "take (?n div 2) freqs = map (bin_frequency ?n sample_rate) [0..<?n div 2]"
    by blast
  show ?thesis
    unfolding calculate_spectral_centroid_def spectral_centroid_formula_def py_reciprocal_def
    using assms(2)
    by (simp add: mag freqs Let_def map2_mul_map)
qed

lemma band_partition:
  "(f64_le F (Finite 300) \<or>
    f64_less (Finite 300) F \<and> f64_le F (Finite 1000) \<or>
    f64_less (Finite 1000) F \<and> f64_le F (Finite 3000))
   = f64_le F (Finite 3000)"
  by (cases F) auto

subsection \<open>The reference inputs evaluated\<close>

text \<open>28 samples at 12000 Hz: the frequency of each first-half bin, every rounding
  step certified. Bin 7, nominally at 3000 Hz, is computed as \<open>3000 + 2 powr -41\<close>.\<close>

lemma bin_frequency_28_12000:
  "bin_frequency 28 12000 0 = Finite 0"
  "bin_frequency 28 12000 1 = Finite (7539508304749715 / 2 ^ 44)"
  "bin_frequency 28 12000 (Suc 0) = Finite (7539508304749715 / 2 ^ 44)"
  "bin_frequency 28 12000 2 = Finite (7539508304749715 / 2 ^ 43)"
  "bin_frequency 28 12000 3 = Finite (5654631228562286 / 2 ^ 42)"
  "bin_frequency 28 12000 4 = Finite (7539508304749715 / 2 ^ 42)"
  "bin_frequency 28 12000 5 = Finite (4712192690468572 / 2 ^ 41)"
  "bin_frequency 28 12000 6 = Finite (5654631228562286 / 2 ^ 41)"
  "bin_frequency 28 12000 7 = Finite (6597069766656001 / 2 ^ 41)"
  "bin_frequency 28 12000 8 = Finite (7539508304749715 / 2 ^ 41)"
  "bin_frequency 28 12000 9 = Finite (8481946842843429 / 2 ^ 41)"
  "bin_frequency 28 12000 10 = Finite (4712192690468572 / 2 ^ 40)"
  "bin_frequency 28 12000 11 = Finite (5183411959515429 / 2 ^ 40)"
  "bin_frequency 28 12000 12 = Finite (5654631228562286 / 2 ^ 40)"
  "bin_frequency 28 12000 13 = Finite (6125850497609143 / 2 ^ 40)"
proof -
  define D :: real where "D = 6148914691236517 / 2 ^ 66"
  define A :: real where "A = 5380300354831952 / 2 ^ 61"
  define V :: real where "V = 7539508304749715 / 2 ^ 44"
  have hD: "f64_round (1 / 12000) = Finite D"
    unfolding D_def using f64_round_certificate [of "1 / 12000" 66 6148914691236517] by simp
  have hA: "f64_round (28 * D) = Finite A"
    unfolding D_def A_def using f64_round_certificate [of "28 * (6148914691236517 / 2 ^ 66)" 61 5380300354831952] by simp
  have hV: "f64_round (1 / A) = Finite V"
    unfolding A_def V_def using f64_round_certificate [of "1 / (5380300354831952 / 2 ^ 61)" 44 7539508304749715] by simp
  have nz: "A \<noteq> 0" by (simp add: A_def)
  have h1: "f64_round (V) = Finite (7539508304749715 / 2 ^ 44)"
    unfolding V_def using f64_round_certificate [of "7539508304749715 / 2 ^ 44" 44 7539508304749715] by simp
  have h2: "f64_round (2 * V) = Finite (7539508304749715 / 2 ^ 43)"
    unfolding V_def using f64_round_certificate [of "2 * (7539508304749715 / 2 ^ 44)" 43 7539508304749715] by simp
  have h3: "f64_round (3 * V) = Finite (5654631228562286 / 2 ^ 42)"
    unfolding V_def using f64_round_certificate [of "3 * (7539508304749715 / 2 ^ 44)" 42 5654631228562286] by simp
  have h4: "f64_round (4 * V) = Finite (7539508304749715 / 2 ^ 42)"
    unfolding V_def using f64_round_certificate [of "4 * (7539508304749715 / 2 ^ 44)" 42 7539508304749715] by simp
  have h5: "f64_round (5 * V) = Finite (4712192690468572 / 2 ^ 41)"
    unfolding V_def using f64_round_certificate [of "5 * (7539508304749715 / 2 ^ 44)" 41 4712192690468572] by simp
  have h6: "f64_round (6 * V) = Finite (5654631228562286 / 2 ^ 41)"
    unfolding V_def using f64_round_certificate [of "6 * (7539508304749715 / 2 ^ 44)" 41 5654631228562286] by simp
  have h7: "f64_round (7 * V) = Finite (6597069766656001 / 2 ^ 41)"
    unfolding V_def using f64_round_certificate [of "7 * (7539508304749715 / 2 ^ 44)" 41 6597069766656001] by simp
  have h8: "f64_round (8 * V) = Finite (7539508304749715 / 2 ^ 41)"
    unfolding V_def using f64_round_certificate [of "8 * (7539508304749715 / 2 ^ 44)" 41 7539508304749715] by simp
  have h9: "f64_round (9 * V) = Finite (8481946842843429 / 2 ^ 41)"
    unfolding V_def using f64_round_certificate [of "9 * (7539508304749715 / 2 ^ 44)" 41 8481946842843429] by simp
  have h10: "f64_round (10 * V) = Finite (4712192690468572 / 2 ^ 40)"
    unfolding V_def using f64_round_certificate [of "10 * (7539508304749715 / 2 ^ 44)" 40 4712192690468572] by simp
  have h11: "f64_round (11 * V) = Finite (5183411959515429 / 2 ^ 40)"
    unfolding V_def using f64_round_certificate [of "11 * (7539508304749715 / 2 ^ 44)" 40 5183411959515429] by simp
  have h12: "f64_round (12 * V) = Finite (5654631228562286 / 2 ^ 40)"
    unfolding V_def using f64_round_certificate [of "12 * (7539508304749715 / 2 ^ 44)" 40 5654631228562286] by simp
  have h13: "f64_round (13 * V) = Finite (6125850497609143 / 2 ^ 40)"
    unfolding V_def using f64_round_certificate [of "13 * (7539508304749715 / 2 ^ 44)" 40 6125850497609143] by simp
  note steps = bin_frequency_def f64_round_numeral f64_round_one f64_round_zero
    hD hA hV nz h1 h2 h3 h4 h5 h6 h7 h8 h9 h10 h11 h12 h13
  show "bin_frequency 28 12000 0 = Finite 0" by (simp add: steps)
  show "bin_frequency 28 12000 1 = Finite (7539508304749715 / 2 ^ 44)" by (simp add: steps)
  show "bin_frequency 28 12000 (Suc 0) = Finite (7539508304749715 / 2 ^ 44)" by (simp add: steps)
  show "bin_frequency 28 12000 2 = Finite (7539508304749715 / 2 ^ 43)" by (simp add: steps)
  show "bin_frequency 28 12000 3 = Finite (5654631228562286 / 2 ^ 42)" by (simp add: steps)
  show "bin_frequency 28 12000 4 = Finite (7539508304749715 / 2 ^ 42)" by (simp add: steps)
  show "bin_frequency 28 12000 5 = Finite (4712192690468572 / 2 ^ 41)" by (simp add: steps)
  show "bin_frequency 28 12000 6 = Finite (5654631228562286 / 2 ^ 41)" by (simp add: steps)
  show "bin_frequency 28 12000 7 = Finite (6597069766656001 / 2 ^ 41)" by (simp add: steps)
  show "bin_frequency 28 12000 8 = Finite (7539508304749715 / 2 ^ 41)" by (simp add: steps)
  show "bin_frequency 28 12000 9 = Finite (8481946842843429 / 2 ^ 41)" by (simp add: steps)
  show "bin_frequency 28 12000 10 = Finite (4712192690468572 / 2 ^ 40)" by (simp add: steps)
  show "bin_frequency 28 12000 11 = Finite (5183411959515429 / 2 ^ 40)" by (simp add: steps)
  show "bin_frequency 28 12000 12 = Finite (5654631228562286 / 2 ^ 40)" by (simp add: steps)
  show "bin_frequency 28 12000 13 = Finite (6125850497609143 / 2 ^ 40)" by (simp add: steps)
qed

lemma dft_bin_impulse: "dft_bin (1 # replicate m 0) k = 1"
proof -
  let ?a = "1 # replicate m (0 :: real)"
  let ?g = "\<lambda>i. complex_of_real (?a ! i) * cis (- (2 * pi * real i * real k / real (length ?a)))"
  have "dft_bin ?a k = sum ?g {0..<Suc m}"
    by (simp add: dft_bin_def interv_sum_list_conv_sum_set_nat del: upt_Suc)
  also have "\<dots> = ?g 0 + sum ?g {Suc 0..<Suc m}"
    by (rule sum.atLeast_Suc_lessThan) simp
  also have "sum ?g {Suc 0..<Suc m} = 0"
    by (rule sum.neutral) (auto simp: nth_Cons')
  finally show ?thesis by simp
qed

lemma magnitude_impulse28: "np_fft_abs exact_numpy impulse28 k = Finite 1"
  by (simp add: exact_numpy_def impulse28_def dft_bin_impulse f64_round_one)

lemma length_impulse28: "length impulse28 = 28"
  by (simp add: impulse28_def)

lemma f64_add_small:
  "f64_add (Finite 0) (Finite 1) = Finite 1"
  "f64_add (Finite 1) (Finite 1) = Finite 2"
  "f64_add (Finite 2) (Finite 1) = Finite 3"
  "f64_add (Finite 3) (Finite 1) = Finite 4"
  "f64_add (Finite 4) (Finite 1) = Finite 5"
  by (simp_all add: f64_round_numeral f64_round_one)

lemma np_sum_exact: "np_sum exact_numpy = foldl f64_add (Finite 0)"
  by (simp add: exact_numpy_def)

lemma bins_28: "[0..<length impulse28 div 2] = [0, 1, 2, 3, 4, 5, 6, 7, 8, 9, 10, 11, 12, 13]"
  by (simp add: length_impulse28 upt_rec)

lemma low_28: "filter (in_low_band 28 12000) [0, 1, 2, 3, 4, 5, 6, 7, 8, 9, 10, 11, 12, 13] = [0]"
  by (simp add: in_low_band_def bin_frequency_28_12000)

lemma mid_28: "filter (in_mid_band 28 12000) [0, 1, 2, 3, 4, 5, 6, 7, 8, 9, 10, 11, 12, 13] = [1, 2]"
  by (simp add: in_mid_band_def bin_frequency_28_12000)

lemma high_28:
  "filter (in_high_band 28 12000) [0, 1, 2, 3, 4, 5, 6, 7, 8, 9, 10, 11, 12, 13] = [3, 4, 5, 6]"
  by (simp add: in_high_band_def bin_frequency_28_12000)

lemma nominal_high_28:
  "filter (nominal_high_band 28 12000) [0, 1, 2, 3, 4, 5, 6, 7, 8, 9, 10, 11, 12, 13]
     = [3, 4, 5, 6, 7]"
  by (simp add: nominal_high_band_def nominal_frequency_def)

lemma band_energies_28:
  "band_energy exact_numpy impulse28 (in_low_band 28 12000) = Finite 1"
  "band_energy exact_numpy impulse28 (in_mid_band 28 12000) = Finite 2"
  "band_energy exact_numpy impulse28 (in_high_band 28 12000) = Finite 4"
  "band_energy exact_numpy impulse28 (nominal_high_band 28 12000) = Finite 5"
  by (simp_all only: band_energy_def bins_28 low_28 mid_28 high_28 nominal_high_28)
    (simp_all add: magnitude_impulse28 np_sum_exact f64_add_small del: f64_add.simps(1))

lemma bands_impulse28:
  "calculate_frequency_bands_energy exact_numpy impulse28 12000
     = Inr (Finite 1, Finite 2, Finite 4)"
proof -
  have "impulse28 \<noteq> []" by (simp add: impulse28_def)
  moreover have "(0 :: int) < 12000" by simp
  moreover have "real_of_int 12000 \<le> 2 powr 1074" by simp
  ultimately have "calculate_frequency_bands_energy exact_numpy impulse28 12000 =
     Inr (band_energy exact_numpy impulse28 (in_low_band (length impulse28) 12000),
          band_energy exact_numpy impulse28 (in_mid_band (length impulse28) 12000),
          band_energy exact_numpy impulse28 (in_high_band (length impulse28) 12000))"
    by (rule calculate_frequency_bands_energy_bands)
  then show ?thesis by (simp only: length_impulse28 band_energies_28)
qed

lemma reciprocal_absurd_rate: "f64_round (1 / real_of_int absurd_rate) = Finite 0"
proof -
  have "1 / real_of_int absurd_rate = 2 powr (- 1076)"
    by (simp add: absurd_rate_def powr_minus_divide)
  moreover have "\<bar>(2 :: real) powr (- 1076)\<bar> < 2 powr (- 1075)" by simp
  then have "f64_round (2 powr (- 1076)) = Finite 0" by (rule f64_round_underflow)
  ultimately show ?thesis by simp
qed

lemma absurd_rate_positive: "0 < absurd_rate"
  by (simp add: absurd_rate_def)

lemma fftfreq_zero_spacing: "0 < n \<Longrightarrow> n < 2 ^ 53 \<Longrightarrow> fftfreq n (Finite 0) = Inl ZeroDivisionError"
proof -
  assume n: "0 < n" "n < 2 ^ 53"
  then have "0 < int n" "int n < 2 ^ 53" by simp_all
  then have "f64_round (real_of_int (int n)) = Finite (real_of_int (int n))"
    by (rule f64_round_int)
  then have "f64_round (real n) = Finite (real n)" by simp
  then show ?thesis by (simp add: fftfreq_def f64_round_zero)
qed

lemma bands_absurd_rate:
  "calculate_frequency_bands_energy exact_numpy impulse28 absurd_rate = Inl ZeroDivisionError"
proof -
  have "absurd_rate \<noteq> 0" by (simp add: absurd_rate_def)
  moreover have "fftfreq (length impulse28) (Finite 0) = Inl ZeroDivisionError"
    by (rule fftfreq_zero_spacing) (simp_all add: length_impulse28)
  ultimately show ?thesis
    by (simp add: calculate_frequency_bands_energy_def np_abs_fft_def py_reciprocal_def
        reciprocal_absurd_rate length_impulse28)
qed

lemma dft_bin_silence4: "dft_bin silence4 k = 0"
  by (simp add: dft_bin_def silence4_def upt_rec nth_Cons')

lemma magnitude_silence4: "np_fft_abs exact_numpy silence4 k = Finite 0"
  by (simp add: exact_numpy_def dft_bin_silence4 f64_round_zero)

lemma length_silence4: "length silence4 = 4"
  by (simp add: silence4_def)

lemma total_silence4:
  "np_sum exact_numpy (map (np_fft_abs exact_numpy silence4) [0..<length silence4 div 2])
     = Finite 0"
  by (simp add: magnitude_silence4 np_sum_exact length_silence4 upt_rec f64_round_zero)

lemma centroid_absurd_rate:
  "calculate_spectral_centroid exact_numpy silence4 absurd_rate = Inl ZeroDivisionError"
proof -
  have "absurd_rate \<noteq> 0" by (simp add: absurd_rate_def)
  moreover have "fftfreq (length silence4) (Finite 0) = Inl ZeroDivisionError"
    by (rule fftfreq_zero_spacing) (simp_all add: length_silence4)
  ultimately show ?thesis
    by (simp add: calculate_spectral_centroid_def np_abs_fft_def py_reciprocal_def
        reciprocal_absurd_rate length_silence4)
qed

section \<open>The specification's properties\<close>




text \<open>
  C2: when \<open>user_id\<close> has no registered record, \<open>verify_user_voiceprint\<close> returns
  exactly (false, 0) for every candidate vector and threshold; the result is a normal
  return (\<open>Inr\<close>), not an exception.
\<close>

theorem verify_unregistered:
  "store user_id = None \<Longrightarrow>
     snd (verify_user_voiceprint store user_id feats threshold) = Inr (False, 0)"
  by (simp add: verify_absent)

theorem verify_unregistered_witness:
  "(Map.empty :: user_voiceprints) 7 = None \<and>
   snd (verify_user_voiceprint Map.empty 7 [1, 2, 3, 4, 5, 6, 7] (4 / 5)) = Inr (False, 0)"
  using verify_unregistered [of Map.empty 7 "[1, 2, 3, 4, 5, 6, 7]" "4 / 5"]
  by simp

text \<open>
  C3: for feature vectors \<open>a\<close> and \<open>b\<close> (of equal length, as two 7-element vectors are),
  if the norm of \<open>a\<close> or the norm of \<open>b\<close> is 0 then the similarity is exactly 0; in
  particular the similarity of an all-zero vector with itself is 0, not 1.
\<close>

theorem similarity_zero_norm:
  "(length a = length b \<and> (linalg_norm a = 0 \<or> linalg_norm b = 0)
      \<longrightarrow> calculate_similarity a b = Inr 0) \<and>
   calculate_similarity (replicate n 0) (replicate n 0) = Inr 0"
  by (simp add: calculate_similarity_zero_norm linalg_norm_replicate_zero)

theorem similarity_zero_norm_witness:
  "length [0, 0, 0, 0, 0, 0, 0 :: real] = length [1, 2, 3, 4, 5, 6, 7 :: real] \<and>
   (linalg_norm [0, 0, 0, 0, 0, 0, 0] = 0 \<or> linalg_norm [1, 2, 3, 4, 5, 6, 7] = 0) \<and>
   calculate_similarity [0, 0, 0, 0, 0, 0, 0] [1, 2, 3, 4, 5, 6, 7] = Inr 0 \<and>
   calculate_similarity (replicate 7 0) (replicate 7 0) = Inr 0"
  using similarity_zero_norm [of "[0, 0, 0, 0, 0, 0, 0]" "[1, 2, 3, 4, 5, 6, 7]" 7]
  by (simp add: linalg_norm_def)

text \<open>
  C4, at a failing input: the seven entries of \<open>v\<close> are \<open>2 powr 600\<close> and the second
  vector is \<open>-v\<close>. Every product overflows, the inner product is minus infinity and
  both norms are infinity, their quotient is NaN, and \<^verbatim>\<open>min(1.0, nan)\<close> keeps
  \<open>1.0\<close>: the method returns 1.0, where the claim says that the similarity of \<open>v\<close>
  and \<open>-v\<close> is 0.0.
\<close>

theorem similarity_opposite_overflow:
  "calculate_similarity_f64
     (replicate 7 (Finite huge)) (map f64_neg (replicate 7 (Finite huge)))
   = Inr (Finite 1)"
  by (simp add: calculate_similarity_f64_def np_dot_f64_def linalg_norm_f64_def
      py_min_f64_def py_max_f64_def f64_mul_huge eval_nat_numeral
      del: f64_mul.simps(1))

text \<open>
  C5, at a failing input: the seven entries of \<open>v\<close> are \<open>2 powr -600\<close>, a non-zero
  vector. Every square underflows to zero, the computed norm is 0, and the zero-norm
  guard returns 0.0, where the claim says that the similarity of \<open>v\<close> with itself is
  1.0 within floating-point tolerance.
\<close>

theorem self_similarity_underflow:
  "calculate_similarity_f64
     (replicate 7 (Finite tiny)) (replicate 7 (Finite tiny))
   = Inr (Finite 0)"
  by (simp add: calculate_similarity_f64_def np_dot_f64_def linalg_norm_f64_def
      f64_mul_tiny f64_round_zero eval_nat_numeral
      del: f64_mul.simps(1))

text \<open>
  C6: for every non-empty sample sequence, the zero-crossing rate is the number of pairs
  of consecutive samples whose three-valued signs (negative, zero, positive) are
  distinct, divided by the number of samples (not by the number of pairs).
\<close>

theorem zero_crossing_rate_spec:
  "audio_data \<noteq> [] \<Longrightarrow>
     calculate_zero_crossing_rate audio_data
       = Some (real (sign_changes audio_data) / real (length audio_data))"
  by (simp add: calculate_zero_crossing_rate_def zero_crossings_count)

theorem zero_crossing_rate_spec_witness:
  "[1, 0, -1, -2, 3 :: real] \<noteq> [] \<and>
   calculate_zero_crossing_rate [1, 0, -1, -2, 3] = Some (3 / 5) \<and>
   sign_changes [1, 0, -1, -2, 3] = 3 \<and> length [1, 0, -1, -2, 3 :: real] = 5"
  using zero_crossing_rate_spec [of "[1, 0, -1, -2, 3]"]
  by (simp add: sign_changes_def sign_of_def upt_rec nth_Cons')

text \<open>
  C7, as stated: the band energies are the sums over the bins whose frequency
  \<open>k * sample_rate / n\<close> lies in the band, for every positive sample rate. It fails
  on a unit impulse of 28 samples at 12000 Hz: bin 7 is nominally at exactly 3000 Hz,
  inside the high band, which would then hold 5 bins of magnitude 1; the code computes
  its frequency as \<open>3000 + 2 powr -41\<close>, drops it, and returns a high-band energy of 4.
  It also fails for a sample rate whose reciprocal rounds to zero: the call raises
  \<^verbatim>\<open>ZeroDivisionError\<close>.
\<close>

theorem band_edge_bin_dropped:
  "nominal_frequency 28 12000 7 = 3000 \<and>
   bin_frequency 28 12000 7 = Finite (3000 + 1 / 2 ^ 41) \<and>
   band_energy exact_numpy impulse28 (nominal_high_band 28 12000) = Finite 5 \<and>
   calculate_frequency_bands_energy exact_numpy impulse28 12000
     = Inr (Finite 1, Finite 2, Finite 4) \<and>
   0 < absurd_rate \<and>
   calculate_frequency_bands_energy exact_numpy impulse28 absurd_rate
     = Inl ZeroDivisionError"
  by (simp add: nominal_frequency_def bin_frequency_28_12000 band_energies_28
      bands_impulse28 absurd_rate_positive bands_absurd_rate)

text \<open>
  C7, amended: for every non-empty sample sequence and every positive sample rate of at
  most \<open>2 powr 1074\<close> (so that its reciprocal is a non-zero double), the three band
  energies are the sums of the computed magnitudes over the first-half bins whose
  frequency, as computed in doubles by \<^verbatim>\<open>k * (1.0 / (n * (1 / sample_rate)))\<close>,
  is at most 300 (low), above 300 and at most 1000 (mid), above 1000 and at most 3000
  (high); a bin is in one of the three bands exactly when its computed frequency is at
  most 3000, so a bin above 3000 Hz contributes to none.
\<close>

theorem frequency_bands_energy_computed:
  assumes "audio_data \<noteq> []" and "0 < sample_rate"
    and "real_of_int sample_rate \<le> 2 powr 1074"
  shows "calculate_frequency_bands_energy np audio_data sample_rate =
           Inr (band_energy np audio_data (in_low_band (length audio_data) sample_rate),
                band_energy np audio_data (in_mid_band (length audio_data) sample_rate),
                band_energy np audio_data (in_high_band (length audio_data) sample_rate)) \<and>
         (in_low_band (length audio_data) sample_rate k \<or>
          in_mid_band (length audio_data) sample_rate k \<or>
          in_high_band (length audio_data) sample_rate k)
           = f64_le (bin_frequency (length audio_data) sample_rate k) (Finite 3000)"
  using calculate_frequency_bands_energy_bands [OF assms, of np]
    band_partition [of "bin_frequency (length audio_data) sample_rate k"]
  by (simp add: in_low_band_def in_mid_band_def in_high_band_def)

theorem frequency_bands_energy_computed_witness:
  "impulse28 \<noteq> [] \<and> (0 :: int) < 12000 \<and> real_of_int 12000 \<le> 2 powr 1074 \<and>
   calculate_frequency_bands_energy exact_numpy impulse28 12000 =
     Inr (band_energy exact_numpy impulse28 (in_low_band 28 12000),
          band_energy exact_numpy impulse28 (in_mid_band 28 12000),
          band_energy exact_numpy impulse28 (in_high_band 28 12000)) \<and>
   (in_low_band 28 12000 8 \<or> in_mid_band 28 12000 8 \<or> in_high_band 28 12000 8)
     = f64_le (bin_frequency 28 12000 8) (Finite 3000)"
proof -
  have ne: "impulse28 \<noteq> []" by (simp add: impulse28_def)
  have r: "(0 :: int) < 12000" by simp
  have b: "real_of_int 12000 \<le> 2 powr 1074" by simp
  from frequency_bands_energy_computed [OF ne r b, of exact_numpy 8] ne r b
  show ?thesis by (simp only: length_impulse28) simp
qed

text \<open>
  C8, as stated: the centroid is the weighted mean frequency for every non-empty
  sample sequence and every positive sample rate. It fails for a sample rate whose
  reciprocal rounds to zero: on 4 samples at a rate of \<open>2 ^ 1076\<close> the call raises
  \<^verbatim>\<open>ZeroDivisionError\<close> and returns no centroid.
\<close>

theorem centroid_zero_division:
  "length silence4 = 4 \<and> 0 < absurd_rate \<and>
   calculate_spectral_centroid exact_numpy silence4 absurd_rate = Inl ZeroDivisionError"
  by (simp add: length_silence4 absurd_rate_positive centroid_absurd_rate)

text \<open>
  C8, amended: for every non-empty sample sequence and every positive sample rate of at
  most \<open>2 powr 1074\<close>, the spectral centroid is the sum of frequency times magnitude
  divided by the sum of the magnitudes, over the first half of the bins (indices below
  \<open>n div 2\<close>), where the magnitudes are those of the computed FFT, the frequency of bin
  \<open>k\<close> is the double \<^verbatim>\<open>k * (1.0 / (n * (1 / sample_rate)))\<close>, and the sums,
  products and quotient are those of numpy on doubles; it is exactly 0 when the computed
  sum of those magnitudes is exactly 0.
\<close>

theorem spectral_centroid_computed:
  assumes "audio_data \<noteq> []" and "0 < sample_rate"
    and "real_of_int sample_rate \<le> 2 powr 1074"
  shows "calculate_spectral_centroid np audio_data sample_rate
           = Inr (spectral_centroid_formula np audio_data sample_rate) \<and>
         (np_sum np (map (np_fft_abs np audio_data) [0..<length audio_data div 2]) = Finite 0
            \<longrightarrow> calculate_spectral_centroid np audio_data sample_rate = Inr (Finite 0))"
  using calculate_spectral_centroid_eq [OF assms, of np]
  by (simp add: spectral_centroid_formula_def)

theorem spectral_centroid_computed_witness:
  "silence4 \<noteq> [] \<and> (0 :: int) < 16000 \<and> real_of_int 16000 \<le> 2 powr 1074 \<and>
   np_sum exact_numpy (map (np_fft_abs exact_numpy silence4) [0..<length silence4 div 2])
     = Finite 0 \<and>
   calculate_spectral_centroid exact_numpy silence4 16000 = Inr (Finite 0)"
proof -
  have ne: "silence4 \<noteq> []" by (simp add: silence4_def)
  have r: "(0 :: int) < 16000" by simp
  have b: "real_of_int 16000 \<le> 2 powr 1074" by simp
  from spectral_centroid_computed [OF ne r b, of exact_numpy] total_silence4
  have "calculate_spectral_centroid exact_numpy silence4 16000 = Inr (Finite 0)"
    by blast
  with ne r b total_silence4 show ?thesis by blast
qed

text \<open>
  C9: \<open>remove_user_voiceprint\<close> returns true exactly when a record for the user id
  existed, and then that record (and no other) is deleted; removing an absent user id
  returns false and leaves the store unchanged; verifying the user id after the removal
  returns (false, 0).
\<close>

theorem remove_user_voiceprint_result:
  "snd (remove_user_voiceprint store u) = (store u \<noteq> None) \<and>
   (store u \<noteq> None \<longrightarrow> fst (remove_user_voiceprint store u) = store(u := None)) \<and>
   (store u = None \<longrightarrow> fst (remove_user_voiceprint store u) = store) \<and>
   snd (verify_user_voiceprint (fst (remove_user_voiceprint store u)) u f t)
     = Inr (False, 0)"
  by (simp add: remove_user_voiceprint_def verify_absent)

theorem remove_user_voiceprint_result_witness:
  "(let store = [1 \<mapsto> \<lparr>features = [1, 0, 0, 0, 0, 0, 0], created_at = 0\<rparr>] in
      store 1 \<noteq> None \<and> store 2 = None \<and>
      remove_user_voiceprint store 1 = (Map.empty, True) \<and>
      remove_user_voiceprint store 2 = (store, False) \<and>
      snd (verify_user_voiceprint (fst (remove_user_voiceprint store 1)) 1
             [1, 0, 0, 0, 0, 0, 0] (4 / 5)) = Inr (False, 0))"
  using
    remove_user_voiceprint_result
      [of "[1 \<mapsto> \<lparr>features = [1, 0, 0, 0, 0, 0, 0], created_at = 0\<rparr>]" 1
          "[1, 0, 0, 0, 0, 0, 0]" "4 / 5"]
    remove_user_voiceprint_result
      [of "[1 \<mapsto> \<lparr>features = [1, 0, 0, 0, 0, 0, 0], created_at = 0\<rparr>]" 2
          "[1, 0, 0, 0, 0, 0, 0]" "4 / 5"]
  by (auto simp: prod_eq_iff)

text \<open>
  C10: \<open>verify_user_voiceprint\<close> leaves the store unchanged, whatever the user id, the
  candidate vector and the threshold, also when the comparison raises: the store after
  the call is the store before it, so the registered user ids and every stored record
  are the same.
\<close>

theorem verify_preserves_store:
  "fst (verify_user_voiceprint store u f t) = store"
  by (simp add: verify_user_voiceprint_def split: option.split sum.split)

end
